theory Spec2Isabelle
  imports Main
begin

section \<open>The document store\<close>

text \<open>
  The server of \<^verbatim>\<open>src/backend/server.js\<close> keeps no state of its own: every handler
  reads and writes four collections of the document store (users, blogs, notifications,
  comments). A collection is a list of documents in the store's natural order; a
  \<^verbatim>\<open>findOne\<close> is the first document that matches. Object ids are natural numbers.
  The store itself does not fail: the \<^verbatim>\<open>catch\<close> of a handler is a branch of the
  model where the handler's own code throws into it or the query is one that the store
  refuses, and nowhere else.
\<close>

type_synonym oid = nat

text \<open>
  Modelled from the spec: \<^verbatim>\<open>Schema/User.js\<close>, \<^verbatim>\<open>Schema/Blog.js\<close>,
  \<^verbatim>\<open>Schema/Notification.js\<close> and \<^verbatim>\<open>Schema/Comment.js\<close> are imported by the
  server and are not among the sources. The records below have the fields that the
  handlers read and write, under the names the handlers use, and the entities of the
  spec's data model. Nested paths are flattened: \<^verbatim>\<open>personal_info.email\<close> is
  \<open>email\<close>, \<^verbatim>\<open>account_info.total_reads\<close> is \<open>account_total_reads\<close>,
  \<^verbatim>\<open>content.blocks\<close> is \<open>content_blocks\<close>; \<^verbatim>\<open>activity\<close> stays a nested
  document. The password is absent for a federated account.
\<close>

record user =
  user_oid :: oid
  fullname :: string
  email :: string
  password :: "string option"
  username :: string
  profile_img :: string
  google_auth :: bool
  account_total_posts :: int
  account_total_reads :: int
  user_blogs :: "oid list"

record activity =
  total_likes :: int
  total_comments :: int
  total_reads :: int
  total_parent_comments :: int

record blog =
  blog_oid :: oid
  blog_id :: string
  title :: string
  banner :: string
  des :: string
  content_blocks :: "string list"
  tags :: "string list"
  author :: oid
  activity :: activity
  comments :: "oid list"
  draft :: bool
  publishedAt :: int

datatype notification_type = Like | Comment

record notification =
  ntype :: notification_type
  nblog :: oid
  notification_for :: oid
  nuser :: oid
  ncomment :: "oid option"

record comment =
  comment_oid :: oid
  cblog_id :: oid
  cblog_author :: oid
  ccomment :: string
  commented_by :: oid
  children :: "oid list"
  commentedAt :: int

record store =
  users :: "user list"
  blogs :: "blog list"
  notifications :: "notification list"
  comment_docs :: "comment list"

subsection \<open>Store operations\<close>

text \<open>\<^verbatim>\<open>Model.findOne(filter)\<close>: the first matching document, or null.\<close>

definition findOne :: "('a \<Rightarrow> bool) \<Rightarrow> 'a list \<Rightarrow> 'a option" where
  "findOne p xs = find p xs"

text \<open>\<^verbatim>\<open>Model.exists(filter)\<close>.\<close>

definition exists_doc :: "('a \<Rightarrow> bool) \<Rightarrow> 'a list \<Rightarrow> bool" where
  "exists_doc p xs = (findOne p xs \<noteq> None)"

text \<open>The collection after an update of the first matching document.\<close>

fun update_first :: "('a \<Rightarrow> bool) \<Rightarrow> ('a \<Rightarrow> 'a) \<Rightarrow> 'a list \<Rightarrow> 'a list" where
  "update_first p f [] = []"
| "update_first p f (x # xs) = (if p x then f x # xs else x # update_first p f xs)"

text \<open>The collection after the removal of the first matching document.\<close>

fun delete_first :: "('a \<Rightarrow> bool) \<Rightarrow> 'a list \<Rightarrow> 'a list" where
  "delete_first p [] = []"
| "delete_first p (x # xs) = (if p x then xs else x # delete_first p xs)"

text \<open>
  \<^verbatim>\<open>Model.findOneAndUpdate(filter, update)\<close> without the \<^verbatim>\<open>new\<close> option: the
  document as it was before the update (null when nothing matches), and the collection
  after it.
\<close>

definition findOneAndUpdate ::
  "('a \<Rightarrow> bool) \<Rightarrow> ('a \<Rightarrow> 'a) \<Rightarrow> 'a list \<Rightarrow> 'a option \<times> 'a list" where
  "findOneAndUpdate p f xs = (findOne p xs, update_first p f xs)"

text \<open>\<^verbatim>\<open>Model.findOneAndDelete(filter)\<close>.\<close>

definition findOneAndDelete :: "('a \<Rightarrow> bool) \<Rightarrow> 'a list \<Rightarrow> 'a option \<times> 'a list" where
  "findOneAndDelete p xs = (findOne p xs, delete_first p xs)"

subsection \<open>Responses\<close>

text \<open>
  \<open>Err c m\<close> is \<^verbatim>\<open>res.status(c).json({error: m})\<close>, \<open>OK b\<close> is
  \<^verbatim>\<open>res.status(200).json(b)\<close>, and \<open>NoResponse\<close> is a request whose promise
  rejects with no handler attached, so that nothing is ever sent.
\<close>

datatype 'a response = Err nat string | OK 'a | NoResponse

section \<open>Sign-in\<close>

text \<open>
  \<^verbatim>\<open>formatDatatoSend\<close>: the session credential and the public profile fields. The
  signing function \<^verbatim>\<open>jwt.sign({id: user._id}, secret)\<close> is a parameter.
\<close>

record auth_data =
  access_token :: string
  sent_profile_img :: string
  sent_username :: string
  sent_fullname :: string

definition formatDatatoSend :: "(oid \<Rightarrow> string) \<Rightarrow> user \<Rightarrow> auth_data" where
  "formatDatatoSend sign u =
     \<lparr>access_token = sign (user_oid u),
      sent_profile_img = profile_img u,
      sent_username = username u,
      sent_fullname = fullname u\<rparr>"

text \<open>
  The \<^verbatim>\<open>/signin\<close> handler. \<open>compare pw h\<close> is \<^verbatim>\<open>bcrypt.compare\<close> on the request's
  password and the stored hash: \<open>None\<close> when it calls back with an error, \<open>Some r\<close>
  with its result otherwise.
\<close>

definition signin ::
  "(string \<Rightarrow> string option \<Rightarrow> bool option) \<Rightarrow> (oid \<Rightarrow> string) \<Rightarrow> store \<Rightarrow>
   string \<Rightarrow> string \<Rightarrow> auth_data response" where
  "signin compare sign s em pw =
     (case findOne (\<lambda>u. email u = em) (users s) of
        None \<Rightarrow> Err 403 ''Email not found''
      | Some u \<Rightarrow>
          if \<not> google_auth u then
            (case compare pw (password u) of
               None \<Rightarrow> Err 403 ''Error occured while login try again''
             | Some result \<Rightarrow>
                 if \<not> result then Err 403 ''Incorrect Password''
                 else OK (formatDatatoSend sign u))
          else Err 403
            ''Account was signed in with google. Try logging in using google account'')"

section \<open>Usernames\<close>

text \<open>
  \<^verbatim>\<open>generateUsername\<close>: the part of the email before the first \<^verbatim>\<open>@\<close>, and when a
  user already has that username, the first five characters of a fresh \<^verbatim>\<open>nanoid()\<close>
  appended to it. The value that \<^verbatim>\<open>nanoid()\<close> returns is the parameter \<open>nanoid\<close>.
\<close>

definition generateUsername :: "string \<Rightarrow> store \<Rightarrow> string \<Rightarrow> string" where
  "generateUsername nanoid s em =
     (let uname = takeWhile (\<lambda>c. c \<noteq> CHR ''@'') em;
          isUsernameNotUnique = exists_doc (\<lambda>u. username u = uname) (users s)
      in if isUsernameNotUnique then uname @ take 5 nanoid else uname)"

section \<open>Creating and updating a post\<close>

text \<open>
  The body of a \<^verbatim>\<open>/create-blog\<close> request. \<open>req_draft\<close> is the truth value of the
  \<^verbatim>\<open>draft\<close> field (absent counts as false), \<open>req_id\<close> the \<^verbatim>\<open>id\<close> field when it
  is there.
\<close>

record create_blog_request =
  req_title :: string
  req_des :: string
  req_banner :: string
  req_tags :: "string list"
  req_content_blocks :: "string list"
  req_draft :: bool
  req_id :: "string option"

text \<open>The checks at the head of the handler: the first one that fails answers 403.\<close>

definition create_blog_validate :: "create_blog_request \<Rightarrow> string option" where
  "create_blog_validate r =
     (if length (req_title r) = 0 then Some ''You must provide a title''
      else if \<not> req_draft r then
        (if length (req_des r) = 0 \<or> length (req_des r) > 200 then
           Some ''You must provide blog description under 200 characters''
         else if length (req_banner r) = 0 then
           Some ''You must provide blog banner to publish it''
         else if length (req_content_blocks r) = 0 then
           Some ''There must be some blog content to publish it''
         else if length (req_tags r) = 0 \<or> length (req_tags r) > 10 then
           Some ''Provide tags in order to publish the blog, Maximum is 10''
         else None)
      else None)"

text \<open>
  \<^verbatim>\<open>toLowerCase\<close> on the ASCII letters. A \<open>char\<close> is a byte, and the bytes of a
  letter beyond ASCII are left as they are, where the source lowers every cased letter.
\<close>

definition toLowerCase :: "string \<Rightarrow> string" where
  "toLowerCase cs =
     map (\<lambda>c. case map_of (zip ''ABCDEFGHIJKLMNOPQRSTUVWXYZ'' ''abcdefghijklmnopqrstuvwxyz'') c of
                 Some d \<Rightarrow> d | None \<Rightarrow> c) cs"

text \<open>
  \<^verbatim>\<open>title.replace(/[^a-zA-Z0-9]/g, ' ').replace(/\s+/g, "-").trim()\<close>: every character
  that is no letter or digit becomes a blank, and every run of blanks one hyphen. After
  the first replacement the only white space is the blank.
\<close>

definition is_alnum :: "char \<Rightarrow> bool" where
  "is_alnum c \<longleftrightarrow>
     c \<in> set ''abcdefghijklmnopqrstuvwxyzABCDEFGHIJKLMNOPQRSTUVWXYZ0123456789''"

function dash_runs :: "string \<Rightarrow> string" where
  "dash_runs [] = []"
| "dash_runs (c # cs) =
     (if c = CHR '' '' then CHR ''-'' # dash_runs (dropWhile (\<lambda>d. d = CHR '' '') cs)
      else c # dash_runs cs)"
  by pat_completeness auto
termination
  by (relation "measure length") (auto simp: length_dropWhile_le less_Suc_eq_le)

definition trim :: "string \<Rightarrow> string" where
  "trim cs = rev (dropWhile (\<lambda>d. d = CHR '' '') (rev (dropWhile (\<lambda>d. d = CHR '' '') cs)))"

definition title_slug :: "string \<Rightarrow> string" where
  "title_slug t = trim (dash_runs (map (\<lambda>c. if is_alnum c then c else CHR '' '') t))"

text \<open>
  The \<^verbatim>\<open>/create-blog\<close> handler, for the user \<open>authorId\<close> that the session check has put
  into the request. \<open>nanoid\<close> is the value of \<^verbatim>\<open>nanoid()\<close>, \<open>new_oid\<close> the object id of
  the new document and \<open>now\<close> its time stamp. A new post starts with all counters at
  zero and no comments. The answer \<open>OK i\<close> is \<^verbatim>\<open>{id: i}\<close>.
\<close>

definition create_blog ::
  "string \<Rightarrow> oid \<Rightarrow> int \<Rightarrow> store \<Rightarrow> oid \<Rightarrow> create_blog_request \<Rightarrow> string response \<times> store" where
  "create_blog nanoid new_oid now s authorId r =
     (case create_blog_validate r of
        Some e \<Rightarrow> (Err 403 e, s)
      | None \<Rightarrow>
          let tgs = map toLowerCase (req_tags r);
              given = (case req_id r of None \<Rightarrow> False | Some i \<Rightarrow> i \<noteq> []);
              bid = (case req_id r of
                       None \<Rightarrow> title_slug (req_title r) @ nanoid
                     | Some i \<Rightarrow> if i \<noteq> [] then i else title_slug (req_title r) @ nanoid)
          in if given then
               (OK bid,
                s\<lparr>blogs := snd (findOneAndUpdate (\<lambda>b. blog_id b = bid)
                   (\<lambda>b. b\<lparr>title := req_title r, des := req_des r, banner := req_banner r,
                          content_blocks := req_content_blocks r, tags := tgs,
                          draft := req_draft r\<rparr>) (blogs s))\<rparr>)
             else
               let b = \<lparr>blog_oid = new_oid, blog_id = bid, title = req_title r,
                        banner = req_banner r, des = req_des r,
                        content_blocks = req_content_blocks r, tags = tgs,
                        author = authorId,
                        activity = \<lparr>total_likes = 0, total_comments = 0, total_reads = 0,
                                    total_parent_comments = 0\<rparr>,
                        comments = [], draft = req_draft r, publishedAt = now\<rparr>;
                   s1 = s\<lparr>blogs := blogs s @ [b]\<rparr>;
                   incrementVal = (if req_draft r then 0 else 1)
               in (OK bid,
                   s1\<lparr>users := snd (findOneAndUpdate (\<lambda>u. user_oid u = authorId)
                      (\<lambda>u. u\<lparr>account_total_posts := account_total_posts u + incrementVal,
                             user_blogs := user_blogs u @ [new_oid]\<rparr>) (users s1))\<rparr>))"

section \<open>Projections\<close>

text \<open>
  A query with \<^verbatim>\<open>.select(fields)\<close> answers documents that hold the selected paths
  only: a path that is not selected is undefined on the document (\<open>None\<close>), whatever the
  stored document holds. \<^verbatim>\<open>_id\<close> is there unless \<^verbatim>\<open>-_id\<close> is given; a populated
  path is always there. \<open>doc_author\<close> is the populated author: the selected sel of the
  user that the post's \<^verbatim>\<open>author\<close> refers to, or null when no user has that id.
\<close>

record author_doc =
  author_oid :: "oid option"
  author_fullname :: string
  author_username :: string
  author_profile_img :: string

record blog_doc =
  doc_oid :: "oid option"
  doc_blog_id :: "string option"
  doc_title :: "string option"
  doc_banner :: "string option"
  doc_des :: "string option"
  doc_content_blocks :: "string list option"
  doc_tags :: "string list option"
  doc_author :: "author_doc option"
  doc_activity :: "activity option"
  doc_comments :: "oid list option"
  doc_draft :: "bool option"
  doc_publishedAt :: "int option"

definition selected :: "string list \<Rightarrow> string \<Rightarrow> 'a \<Rightarrow> 'a option" where
  "selected sel path v = (if path \<in> set sel then Some v else None)"

text \<open>
  \<^verbatim>\<open>.populate("author", fields)\<close>; every handler asks for the same three fields of
  \<^verbatim>\<open>personal_info\<close>, with or without \<^verbatim>\<open>-_id\<close>.
\<close>

definition populate_author :: "string list \<Rightarrow> store \<Rightarrow> oid \<Rightarrow> author_doc option" where
  "populate_author sel s a =
     map_option
       (\<lambda>u. \<lparr>author_oid = (if ''-_id'' \<in> set sel then None else Some (user_oid u)),
             author_fullname = fullname u,
             author_username = username u,
             author_profile_img = profile_img u\<rparr>)
       (findOne (\<lambda>u. user_oid u = a) (users s))"

definition select_blog :: "string list \<Rightarrow> author_doc option \<Rightarrow> blog \<Rightarrow> blog_doc" where
  "select_blog sel a b =
     \<lparr>doc_oid = (if ''-_id'' \<in> set sel then None else Some (blog_oid b)),
      doc_blog_id = selected sel ''blog_id'' (blog_id b),
      doc_title = selected sel ''title'' (title b),
      doc_banner = selected sel ''banner'' (banner b),
      doc_des = selected sel ''des'' (des b),
      doc_content_blocks = selected sel ''content'' (content_blocks b),
      doc_tags = selected sel ''tags'' (tags b),
      doc_author = a,
      doc_activity = selected sel ''activity'' (activity b),
      doc_comments = selected sel ''comments'' (comments b),
      doc_draft = selected sel ''draft'' (draft b),
      doc_publishedAt = selected sel ''publishedAt'' (publishedAt b)\<rparr>"

text \<open>The truth value of a field that may be undefined.\<close>

definition truthy :: "bool option \<Rightarrow> bool" where
  "truthy v = (case v of None \<Rightarrow> False | Some t \<Rightarrow> t)"

section \<open>Fetching a post\<close>

text \<open>
  The body of a \<^verbatim>\<open>/get-blog\<close> request: \<open>get_draft\<close> is the truth value of the
  \<^verbatim>\<open>draft\<close> field, \<open>get_mode\<close> the \<^verbatim>\<open>mode\<close> field when it is there.
\<close>

record get_blog_request =
  get_blog_id :: string
  get_draft :: bool
  get_mode :: "string option"

definition inc_total_reads :: "int \<Rightarrow> blog \<Rightarrow> blog" where
  "inc_total_reads n b = b\<lparr>activity := (activity b)\<lparr>total_reads := total_reads (activity b) + n\<rparr>\<rparr>"

definition inc_account_total_reads :: "int \<Rightarrow> user \<Rightarrow> user" where
  "inc_account_total_reads n u = u\<lparr>account_total_reads := account_total_reads u + n\<rparr>"

text \<open>
  The \<^verbatim>\<open>/get-blog\<close> handler. The post is updated first and read as it was before the
  update, through the selection of the handler. When no post has the id, or no user is
  the post's author, reading \<^verbatim>\<open>blog.author.personal_info.username\<close> throws inside the
  promise and the \<^verbatim>\<open>catch\<close> answers 500 with the message of the TypeError.
\<close>

definition get_blog :: "store \<Rightarrow> get_blog_request \<Rightarrow> blog_doc response \<times> store" where
  "get_blog s r =
     (let incrementVal = (if get_mode r \<noteq> Some ''edit'' then 1 else 0);
          (found, blogs') = findOneAndUpdate (\<lambda>b. blog_id b = get_blog_id r)
                              (inc_total_reads incrementVal) (blogs s);
          s1 = s\<lparr>blogs := blogs'\<rparr>
      in case found of
           None \<Rightarrow> (Err 500 ''Cannot read properties of null'', s1)
         | Some b0 \<Rightarrow>
             let blog = select_blog
                   [''title'', ''des'', ''content'', ''banner'', ''activity'', ''publishedAt'',
                    ''blog_id'', ''tags'']
                   (populate_author
                      [''personal_info.fullname'', ''personal_info.username'',
                       ''personal_info.profile_img''] s (author b0)) b0
             in case doc_author blog of
                  None \<Rightarrow> (Err 500 ''Cannot read properties of null'', s1)
                | Some a \<Rightarrow>
                    let s2 = s1\<lparr>users := snd (findOneAndUpdate
                               (\<lambda>u. username u = author_username a)
                               (inc_account_total_reads incrementVal) (users s1))\<rparr>
                    in if truthy (doc_draft blog) \<and> \<not> get_draft r then
                         (Err 500 ''you cannot access draft blogs'', s2)
                       else (OK blog, s2))"

text \<open>
  The read counter of the post with the identifier \<open>i\<close> and the read counter of the user
  with the object id \<open>a\<close>, when there is one.
\<close>

definition reads_of :: "store \<Rightarrow> string \<Rightarrow> int option" where
  "reads_of s i =
     map_option (\<lambda>b. total_reads (activity b)) (findOne (\<lambda>b. blog_id b = i) (blogs s))"

definition account_reads_of :: "store \<Rightarrow> oid \<Rightarrow> int option" where
  "account_reads_of s a =
     map_option account_total_reads (findOne (\<lambda>u. user_oid u = a) (users s))"

section \<open>Likes\<close>

text \<open>
  The body of a \<^verbatim>\<open>/like-blog\<close> request: the object id of the post and the truth value
  of the \<^verbatim>\<open>islikedByUser\<close> field.
\<close>

record like_request =
  like_oid :: oid
  islikedByUser :: bool

definition inc_total_likes :: "int \<Rightarrow> blog \<Rightarrow> blog" where
  "inc_total_likes n b = b\<lparr>activity := (activity b)\<lparr>total_likes := total_likes (activity b) + n\<rparr>\<rparr>"

definition is_like_of :: "oid \<Rightarrow> oid \<Rightarrow> notification \<Rightarrow> bool" where
  "is_like_of user_id bid n \<longleftrightarrow> nuser n = user_id \<and> nblog n = bid \<and> ntype n = Like"

text \<open>
  The \<^verbatim>\<open>/like-blog\<close> handler, for the user \<open>user_id\<close> of the session. The answer
  \<open>OK l\<close> is \<^verbatim>\<open>{liked_by_user: l}\<close>. When no post has the id and the request says
  not liked, \<^verbatim>\<open>blog.author\<close> throws and the promise has no \<^verbatim>\<open>catch\<close>.
\<close>

definition like_blog :: "store \<Rightarrow> oid \<Rightarrow> like_request \<Rightarrow> bool response \<times> store" where
  "like_blog s user_id r =
     (let incrementVal = (if \<not> islikedByUser r then 1 else - 1);
          (found, blogs') = findOneAndUpdate (\<lambda>b. blog_oid b = like_oid r)
                              (inc_total_likes incrementVal) (blogs s);
          s1 = s\<lparr>blogs := blogs'\<rparr>
      in if \<not> islikedByUser r then
           (case found of
              None \<Rightarrow> (NoResponse, s1)
            | Some blog \<Rightarrow>
                (OK True,
                 s1\<lparr>notifications := notifications s1 @
                      [\<lparr>ntype = Like, nblog = like_oid r, notification_for = author blog,
                        nuser = user_id, ncomment = None\<rparr>]\<rparr>))
         else
           (OK False,
            s1\<lparr>notifications :=
                 snd (findOneAndDelete (is_like_of user_id (like_oid r)) (notifications s1))\<rparr>))"

text \<open>The \<^verbatim>\<open>/isliked-by-user\<close> handler: whether a like notification is there.\<close>

definition isliked_by_user :: "store \<Rightarrow> oid \<Rightarrow> oid \<Rightarrow> bool response" where
  "isliked_by_user s user_id bid =
     OK (exists_doc (\<lambda>n. nuser n = user_id \<and> ntype n = Like \<and> nblog n = bid) (notifications s))"

text \<open>
  A like toggle as a client performs it: it asks \<^verbatim>\<open>/isliked-by-user\<close> whether a like
  notification of the user for the post is there, and sends that answer to
  \<^verbatim>\<open>/like-blog\<close> as \<^verbatim>\<open>islikedByUser\<close>.
\<close>

definition toggle_like :: "store \<Rightarrow> oid \<Rightarrow> oid \<Rightarrow> store" where
  "toggle_like s user_id bid =
     snd (like_blog s user_id
            \<lparr>like_oid = bid, islikedByUser = (isliked_by_user s user_id bid = OK True)\<rparr>)"

text \<open>The like counter of the post with the object id \<open>bid\<close>, when there is one.\<close>

definition likes_of :: "store \<Rightarrow> oid \<Rightarrow> int option" where
  "likes_of s bid =
     map_option (\<lambda>b. total_likes (activity b)) (findOne (\<lambda>b. blog_oid b = bid) (blogs s))"

section \<open>Comments\<close>

record comment_request =
  com_oid :: oid
  com_comment :: string
  com_blog_author :: oid

text \<open>
  The update of \<^verbatim>\<open>/add-comment\<close> on the post:
  \<^verbatim>\<open>{ $push: {"comments": c}, $inc: {"activity.total_comments": 1}, "activity.total_parent_comments": 1 }\<close>.
  The last key stands beside the operators, not inside \<^verbatim>\<open>$inc\<close>: a key of an update
  that is no operator is a \<^verbatim>\<open>$set\<close> of that path.
\<close>

definition comment_update :: "oid \<Rightarrow> blog \<Rightarrow> blog" where
  "comment_update c b =
     b\<lparr>comments := comments b @ [c],
       activity := (activity b)\<lparr>total_comments := total_comments (activity b) + 1,
                                total_parent_comments := 1\<rparr>\<rparr>"

text \<open>
  The \<^verbatim>\<open>/add-comment\<close> handler, for the user \<open>user_id\<close> of the session; \<open>new_oid\<close> is
  the object id of the new comment and \<open>now\<close> its time stamp. The answer is the saved
  comment, of which the handler sends the text, the time stamp, the id and the children.
\<close>

definition add_comment ::
  "oid \<Rightarrow> int \<Rightarrow> store \<Rightarrow> oid \<Rightarrow> comment_request \<Rightarrow> comment response \<times> store" where
  "add_comment new_oid now s user_id r =
     (if length (com_comment r) = 0 then (Err 403 ''Write something to leave a comment'', s)
      else
        let commentFile = \<lparr>comment_oid = new_oid, cblog_id = com_oid r,
                            cblog_author = com_blog_author r, ccomment = com_comment r,
                            commented_by = user_id, children = [], commentedAt = now\<rparr>;
            s1 = s\<lparr>comment_docs := comment_docs s @ [commentFile]\<rparr>;
            s2 = s1\<lparr>blogs := snd (findOneAndUpdate (\<lambda>b. blog_oid b = com_oid r)
                                   (comment_update new_oid) (blogs s1))\<rparr>;
            notificationObj = \<lparr>ntype = Comment, nblog = com_oid r,
                                notification_for = com_blog_author r, nuser = user_id,
                                ncomment = Some new_oid\<rparr>
        in (OK commentFile, s2\<lparr>notifications := notifications s2 @ [notificationObj]\<rparr>))"

text \<open>The two comment counters of the post with the object id \<open>bid\<close>.\<close>

definition comments_of :: "store \<Rightarrow> oid \<Rightarrow> int option" where
  "comments_of s bid =
     map_option (\<lambda>b. total_comments (activity b)) (findOne (\<lambda>b. blog_oid b = bid) (blogs s))"

definition parent_comments_of :: "store \<Rightarrow> oid \<Rightarrow> int option" where
  "parent_comments_of s bid =
     map_option (\<lambda>b. total_parent_comments (activity b))
       (findOne (\<lambda>b. blog_oid b = bid) (blogs s))"

section \<open>Listings\<close>

text \<open>
  \<^verbatim>\<open>.sort({path: -1, ...})\<close> orders documents by the named paths, the first path
  first. A path that names no field of a document reads as null there, and null sorts
  below every number. \<open>sort_field\<close> reads the numeric paths of a post.
\<close>

definition sort_field :: "string \<Rightarrow> blog \<Rightarrow> int option" where
  "sort_field path b =
     (if path = ''activity.total_likes'' then Some (total_likes (activity b))
      else if path = ''activity.total_comments'' then Some (total_comments (activity b))
      else if path = ''activity.total_reads'' then Some (total_reads (activity b))
      else if path = ''activity.total_parent_comments'' then
        Some (total_parent_comments (activity b))
      else if path = ''publishedAt'' then Some (publishedAt b)
      else None)"

fun key_less :: "int option \<Rightarrow> int option \<Rightarrow> bool" where
  "key_less None (Some y) = True"
| "key_less (Some x) (Some y) = (x < y)"
| "key_less x None = False"

text \<open>\<open>sorts_before keys a b\<close>: the sort puts \<open>a\<close> strictly before \<open>b\<close>.\<close>

fun sorts_before :: "(string \<times> int) list \<Rightarrow> blog \<Rightarrow> blog \<Rightarrow> bool" where
  "sorts_before [] a b = False"
| "sorts_before ((path, dir) # keys) a b =
     (let x = sort_field path a; y = sort_field path b
      in if x = y then sorts_before keys a b
         else if dir < 0 then key_less y x else key_less x y)"

text \<open>A stable insertion sort: documents that tie keep the order of the collection.\<close>

fun insert_doc :: "(string \<times> int) list \<Rightarrow> blog \<Rightarrow> blog list \<Rightarrow> blog list" where
  "insert_doc keys x [] = [x]"
| "insert_doc keys x (y # ys) =
     (if sorts_before keys y x then y # insert_doc keys x ys else x # y # ys)"

definition sort_docs :: "(string \<times> int) list \<Rightarrow> blog list \<Rightarrow> blog list" where
  "sort_docs keys xs = foldr (insert_doc keys) xs []"

definition author_fields :: "string list" where
  "author_fields =
     [''personal_info.profile_img'', ''personal_info.username'', ''personal_info.fullname'',
      ''-_id'']"

text \<open>The \<^verbatim>\<open>/trending-blogs\<close> handler. The answer \<open>OK bs\<close> is \<^verbatim>\<open>{blogs: bs}\<close>.\<close>

definition trending_blogs :: "store \<Rightarrow> blog_doc list response" where
  "trending_blogs s =
     OK (map (\<lambda>b. select_blog [''blog_id'', ''title'', ''publishedAt'', ''-_id'']
                    (populate_author author_fields s (author b)) b)
          (take 5
            (sort_docs
               [(''activity.total_read'', - 1), (''activity.total_likes'', - 1),
                (''publishedAt'', - 1)]
               (filter (\<lambda>b. draft b = False) (blogs s)))))"

text \<open>
  The body of a \<^verbatim>\<open>/search-blogs\<close> request. A field that is absent is \<open>None\<close>; the
  absent \<^verbatim>\<open>limit\<close> is 0, which the handler treats alike.
\<close>

record search_request =
  search_tag :: "string option"
  search_query :: "string option"
  search_author :: "oid option"
  search_page :: int
  search_limit :: nat
  search_eliminate_blog :: "string option"

text \<open>
  \<^verbatim>\<open>findQuery\<close>: the filter as a predicate on posts, \<open>None\<close> when the variable is left
  undefined. A string field counts when it is there and not empty, the author id when it
  is there. The chain \<^verbatim>\<open>if (tag) .. else if (query) .. else if (author) ..\<close> is written
  from its last branch to its first. \<open>matches q t\<close> is the test of
  \<^verbatim>\<open>new RegExp(q, 'i')\<close> on the title \<open>t\<close>.
\<close>

definition findQuery ::
  "(string \<Rightarrow> string \<Rightarrow> bool) \<Rightarrow> search_request \<Rightarrow> (blog \<Rightarrow> bool) option" where
  "findQuery matches r =
     (let by_author =
            (case search_author r of
               None \<Rightarrow> None
             | Some a \<Rightarrow> Some (\<lambda>b. author b = a \<and> draft b = False));
          by_query =
            (case search_query r of
               None \<Rightarrow> by_author
             | Some q \<Rightarrow>
                 if q \<noteq> [] then Some (\<lambda>b. draft b = False \<and> matches q (title b))
                 else by_author)
      in case search_tag r of
           None \<Rightarrow> by_query
         | Some tg \<Rightarrow>
             if tg \<noteq> [] then
               Some (\<lambda>b. tg \<in> set (tags b) \<and> draft b = False
                          \<and> Some (blog_id b) \<noteq> search_eliminate_blog r)
             else by_query)"

text \<open>\<^verbatim>\<open>Model.find(filter)\<close>: every document when the filter is undefined.\<close>

definition find_docs :: "('a \<Rightarrow> bool) option \<Rightarrow> 'a list \<Rightarrow> 'a list" where
  "find_docs q xs = (case q of None \<Rightarrow> xs | Some p \<Rightarrow> filter p xs)"

text \<open>
  The \<^verbatim>\<open>/search-blogs\<close> handler. A negative \<^verbatim>\<open>skip\<close> is refused by the store, and
  the \<^verbatim>\<open>catch\<close> answers 500 with the store's message.
\<close>

definition search_blogs ::
  "(string \<Rightarrow> string \<Rightarrow> bool) \<Rightarrow> store \<Rightarrow> search_request \<Rightarrow> blog_doc list response" where
  "search_blogs matches s r =
     (let maxLimit = (if search_limit r \<noteq> 0 then search_limit r else 2);
          skip = (search_page r - 1) * int maxLimit
      in if skip < 0 then Err 500 ''skip value must be non-negative''
         else
           OK (map (\<lambda>b. select_blog
                           [''blog_id'', ''title'', ''des'', ''banner'', ''activity'', ''tags'',
                            ''publishedAt'', ''-_id'']
                           (populate_author author_fields s (author b)) b)
                (take maxLimit (drop (nat skip)
                   (sort_docs [(''publishedAt'', - 1)]
                      (find_docs (findQuery matches r) (blogs s)))))))"

section \<open>Example stores\<close>

text \<open>Concrete users, posts and stores, on which the properties below are run.\<close>

definition alice :: user where
  "alice = \<lparr>user_oid = 1, fullname = ''Alice A'', email = ''shik@gmail.com'',
            password = Some ''hash:Abcde1'', username = ''shik'', profile_img = ''a.png'',
            google_auth = False, account_total_posts = 1, account_total_reads = 7,
            user_blogs = [10]\<rparr>"

definition bob :: user where
  "bob = \<lparr>user_oid = 2, fullname = ''Bob B'', email = ''shikabcde@gmail.com'',
          password = None, username = ''shikabcde'', profile_img = ''b.png'',
          google_auth = True, account_total_posts = 0, account_total_reads = 0,
          user_blogs = []\<rparr>"

text \<open>A stand-in for the hash comparison: the hash of a password is the password after a tag.\<close>

definition hash_compare :: "string \<Rightarrow> string option \<Rightarrow> bool option" where
  "hash_compare pw h = (case h of None \<Rightarrow> None | Some t \<Rightarrow> Some (t = ''hash:'' @ pw))"

definition sign_id :: "oid \<Rightarrow> string" where
  "sign_id i = ''token'' @ replicate i CHR ''x''"

definition two_users :: store where
  "two_users = \<lparr>users = [alice, bob], blogs = [], notifications = [], comment_docs = []\<rparr>"

definition draft_post :: blog where
  "draft_post = \<lparr>blog_oid = 10, blog_id = ''my-draft'', title = ''My draft'', banner = [],
     des = [], content_blocks = [], tags = [], author = 1,
     activity = \<lparr>total_likes = 0, total_comments = 0, total_reads = 0,
                 total_parent_comments = 0\<rparr>,
     comments = [], draft = True, publishedAt = 100\<rparr>"

definition draft_store :: store where
  "draft_store = \<lparr>users = [alice, bob], blogs = [draft_post], notifications = [],
                   comment_docs = []\<rparr>"

definition read_post :: blog where
  "read_post = \<lparr>blog_oid = 11, blog_id = ''read'', title = ''Much read'', banner = ''r.jpeg'',
     des = ''read'', content_blocks = [''text''], tags = [''a''], author = 1,
     activity = \<lparr>total_likes = 0, total_comments = 3, total_reads = 10,
                 total_parent_comments = 3\<rparr>,
     comments = [], draft = False, publishedAt = 100\<rparr>"

definition liked_post :: blog where
  "liked_post = \<lparr>blog_oid = 12, blog_id = ''liked'', title = ''Much liked'', banner = ''l.jpeg'',
     des = ''liked'', content_blocks = [''text''], tags = [''a''], author = 1,
     activity = \<lparr>total_likes = 5, total_comments = 0, total_reads = 0,
                 total_parent_comments = 0\<rparr>,
     comments = [], draft = False, publishedAt = 200\<rparr>"

definition published_store :: store where
  "published_store = \<lparr>users = [alice, bob], blogs = [read_post, liked_post],
                       notifications = [], comment_docs = []\<rparr>"

text \<open>
  The store after two \<^verbatim>\<open>/like-blog\<close> requests of user 2 on post 12 that both say
  \<^verbatim>\<open>islikedByUser: false\<close>.
\<close>

definition like_request_12 :: like_request where
  "like_request_12 = \<lparr>like_oid = 12, islikedByUser = False\<rparr>"

definition twice_liked :: store where
  "twice_liked =
     snd (like_blog (snd (like_blog published_store 2 like_request_12)) 2 like_request_12)"

definition plain_request :: "string \<Rightarrow> get_blog_request" where
  "plain_request i = \<lparr>get_blog_id = i, get_draft = False, get_mode = None\<rparr>"

definition edit_request :: "string \<Rightarrow> get_blog_request" where
  "edit_request i = \<lparr>get_blog_id = i, get_draft = True, get_mode = Some ''edit''\<rparr>"

definition draft_request :: create_blog_request where
  "draft_request = \<lparr>req_title = ''Hello, World!'', req_des = [], req_banner = [], req_tags = [],
                     req_content_blocks = [], req_draft = True, req_id = None\<rparr>"

definition publish_request :: create_blog_request where
  "publish_request = \<lparr>req_title = ''Hello, World!'', req_des = ''A post'',
                       req_banner = ''b.jpeg'', req_tags = replicate 11 ''Tag'',
                       req_content_blocks = [''text''], req_draft = False, req_id = None\<rparr>"

text \<open>A comment of user 2 on post 11, whose author is user 1, that names user 2 as the author.\<close>

definition bob_comment :: comment_request where
  "bob_comment = \<lparr>com_oid = 11, com_comment = ''Nice post'', com_blog_author = 2\<rparr>"

text \<open>A store of two published posts and a draft that is newer than both.\<close>

definition mixed_store :: store where
  "mixed_store = \<lparr>users = [alice, bob],
                   blogs = [read_post, liked_post, draft_post\<lparr>publishedAt := 300\<rparr>],
                   notifications = [], comment_docs = []\<rparr>"

definition empty_search :: search_request where
  "empty_search = \<lparr>search_tag = None, search_query = None, search_author = None,
                    search_page = 1, search_limit = 0, search_eliminate_blog = None\<rparr>"

text \<open>A stand-in for the regular expression test: the title starts with the query.\<close>

definition starts_with :: "string \<Rightarrow> string \<Rightarrow> bool" where
  "starts_with q t \<longleftrightarrow> take (length q) t = q"

section \<open>Properties\<close>

subsection \<open>Store operations\<close>

lemma findOne_None_iff: "findOne p xs = None \<longleftrightarrow> (\<forall>x \<in> set xs. \<not> p x)"
  by (auto simp: findOne_def find_None_iff)

lemma findOne_in_set: "findOne p xs = Some x \<Longrightarrow> x \<in> set xs \<and> p x"
  by (induction xs) (auto simp: findOne_def split: if_splits)

lemma exists_doc_filter: "exists_doc p xs \<longleftrightarrow> filter p xs \<noteq> []"
  by (induction xs) (auto simp: exists_doc_def findOne_def)

lemma update_first_no_match: "\<forall>x \<in> set xs. \<not> p x \<Longrightarrow> update_first p f xs = xs"
  by (induction xs) auto

lemma update_first_twice:
  "(\<And>x. p x \<Longrightarrow> p (f x)) \<Longrightarrow>
   update_first p g (update_first p f xs) = update_first p (g \<circ> f) xs"
  by (induction xs) auto

lemma update_first_same: "(\<And>x. p x \<Longrightarrow> f x = x) \<Longrightarrow> update_first p f xs = xs"
  by (induction xs) auto

lemma findOne_update_first:
  "(\<And>x. p x \<Longrightarrow> p (f x)) \<Longrightarrow> findOne p (update_first p f xs) = map_option f (findOne p xs)"
  by (induction xs) (auto simp: findOne_def)

text \<open>
  An update that finds its document by a key that no two documents share changes the
  document that has the key, whatever filter reads it back afterwards.
\<close>

lemma findOne_update_by_key:
  "distinct (map k xs) \<Longrightarrow> findOne q xs = Some a \<Longrightarrow> (\<And>x. q (f x) = q x) \<Longrightarrow>
   findOne q (update_first (\<lambda>u. k u = k a) f xs) = Some (f a)"
proof (induction xs)
  case Nil
  then show ?case by (simp add: findOne_def)
next
  case (Cons x xs)
  show ?case
  proof (cases "q x")
    case True
    with Cons.prems show ?thesis by (simp add: findOne_def)
  next
    case False
    with Cons.prems have a: "findOne q xs = Some a" by (simp add: findOne_def)
    then have "a \<in> set xs" by (simp add: findOne_in_set)
    with Cons.prems(1) have "k x \<noteq> k a" by auto
    moreover have "findOne q (update_first (\<lambda>u. k u = k a) f xs) = Some (f a)"
      using Cons.IH Cons.prems a by simp
    ultimately show ?thesis using False by (simp add: findOne_def)
  qed
qed

lemma filter_delete_first: "filter p (delete_first p xs) = tl (filter p xs)"
  by (induction xs) auto

subsection \<open>Sign-in\<close>

text \<open>
  Claim C5. A sign-in with an email that no user has fails with the not-found error. When
  a user has the email: a federated account fails with the wrong-provider error; a
  password account whose hash comparison says no fails with the invalid-credentials
  error; a password account whose hash comparison says yes succeeds, and the answer
  carries the session credential signed for that user's id.
\<close>

theorem signin_outcomes:
  "((\<forall>u \<in> set (users s). email u \<noteq> em) \<longrightarrow>
      signin compare sign s em pw = Err 403 ''Email not found'')
   \<and> (findOne (\<lambda>u. email u = em) (users s) = Some u \<and> \<not> google_auth u
        \<and> compare pw (password u) = Some False \<longrightarrow>
      signin compare sign s em pw = Err 403 ''Incorrect Password'')
   \<and> (findOne (\<lambda>u. email u = em) (users s) = Some u \<and> google_auth u \<longrightarrow>
      signin compare sign s em pw = Err 403
        ''Account was signed in with google. Try logging in using google account'')
   \<and> (findOne (\<lambda>u. email u = em) (users s) = Some u \<and> \<not> google_auth u
        \<and> compare pw (password u) = Some True \<longrightarrow>
      (\<exists>d. signin compare sign s em pw = OK d \<and> access_token d = sign (user_oid u)))"
proof -
  have "(\<forall>u \<in> set (users s). email u \<noteq> em) \<Longrightarrow>
          findOne (\<lambda>u. email u = em) (users s) = None"
    by (simp add: findOne_None_iff)
  then show ?thesis
    by (auto simp: signin_def formatDatatoSend_def)
qed

theorem signin_outcomes_witness:
  "signin hash_compare sign_id two_users ''carol@gmail.com'' ''Abcde1''
     = Err 403 ''Email not found''
   \<and> signin hash_compare sign_id two_users ''shik@gmail.com'' ''abc''
     = Err 403 ''Incorrect Password''
   \<and> signin hash_compare sign_id two_users ''shikabcde@gmail.com'' ''Abcde1''
     = Err 403 ''Account was signed in with google. Try logging in using google account''
   \<and> (\<exists>d. signin hash_compare sign_id two_users ''shik@gmail.com'' ''Abcde1'' = OK d
        \<and> access_token d = ''tokenx'')"
proof -
  have nf: "\<forall>u \<in> set (users two_users). email u \<noteq> ''carol@gmail.com''"
    by (simp add: two_users_def alice_def bob_def)
  have fa: "findOne (\<lambda>u. email u = ''shik@gmail.com'') (users two_users) = Some alice"
    by (simp add: two_users_def alice_def bob_def findOne_def)
  have fb: "findOne (\<lambda>u. email u = ''shikabcde@gmail.com'') (users two_users) = Some bob"
    by (simp add: two_users_def alice_def bob_def findOne_def)
  have ga: "\<not> google_auth alice" by (simp add: alice_def)
  have gb: "google_auth bob" by (simp add: bob_def)
  have c1: "hash_compare ''abc'' (password alice) = Some False"
    by (simp add: alice_def hash_compare_def)
  have c2: "hash_compare ''Abcde1'' (password alice) = Some True"
    by (simp add: alice_def hash_compare_def)
  have ua: "sign_id (user_oid alice) = ''tokenx''" by (simp add: alice_def sign_id_def)
  show ?thesis
    using signin_outcomes [where s = two_users and em = "''carol@gmail.com''"
        and compare = hash_compare and sign = sign_id and pw = "''Abcde1''" and u = alice] nf
      signin_outcomes [where s = two_users and em = "''shik@gmail.com''"
        and compare = hash_compare and sign = sign_id and pw = "''abc''" and u = alice] fa ga c1
      signin_outcomes [where s = two_users and em = "''shikabcde@gmail.com''"
        and compare = hash_compare and sign = sign_id and pw = "''Abcde1''" and u = bob] fb gb
      signin_outcomes [where s = two_users and em = "''shik@gmail.com''"
        and compare = hash_compare and sign = sign_id and pw = "''Abcde1''" and u = alice] c2 ua
    by simp
qed

subsection \<open>Usernames\<close>

text \<open>
  Claim C6 says that the username of a signup is unique among the usernames of the
  users there are. \<^verbatim>\<open>generateUsername\<close> looks the local part up once and does not
  look the suffixed name up: with \<^verbatim>\<open>shik\<close> and \<^verbatim>\<open>shikabcde\<close> both taken and a
  \<^verbatim>\<open>nanoid()\<close> that starts with \<^verbatim>\<open>abcde\<close>, the name it answers for
  \<^verbatim>\<open>shik@yahoo.com\<close> is the one that user 2 has.
\<close>

theorem generateUsername_collision:
  "generateUsername ''abcdeFGHIJ_klmno-1234'' two_users ''shik@yahoo.com'' = ''shikabcde''
   \<and> exists_doc (\<lambda>u. username u = ''shikabcde'') (users two_users)"
  by (simp add: generateUsername_def two_users_def alice_def bob_def exists_doc_def findOne_def)

subsection \<open>Fetching a post\<close>

text \<open>
  The document that the handler reads has no \<^verbatim>\<open>draft\<close> field, so no fetch at all is
  answered with the access error.
\<close>

lemma get_blog_selection_drops_draft:
  "doc_draft (select_blog
     [''title'', ''des'', ''content'', ''banner'', ''activity'', ''publishedAt'', ''blog_id'',
      ''tags''] a b) = None"
  by (simp add: select_blog_def selected_def)

lemma get_blog_never_refuses:
  "fst (get_blog s r) \<noteq> Err 500 ''you cannot access draft blogs''"
  by (simp add: get_blog_def findOneAndUpdate_def Let_def get_blog_selection_drops_draft
      truthy_def split: option.splits)

text \<open>
  Claim C1 says that a draft fetched without the draft flag is answered with the access
  error. The handler tests \<^verbatim>\<open>blog.draft\<close> on the selected document, and its selection
  does not hold \<^verbatim>\<open>draft\<close>: the test never fires. The draft of \<open>draft_store\<close>,
  asked for with no flag, is answered with status 200 and the post.
\<close>

theorem get_blog_draft_served:
  "draft draft_post
   \<and> findOne (\<lambda>b. blog_id b = ''my-draft'') (blogs draft_store) = Some draft_post
   \<and> (\<exists>d. fst (get_blog draft_store (plain_request ''my-draft'')) = OK d
          \<and> doc_title d = Some ''My draft'' \<and> doc_draft d = None)"
  by (simp add: get_blog_def draft_store_def draft_post_def plain_request_def findOneAndUpdate_def
      findOne_def select_blog_def selected_def populate_author_def alice_def bob_def truthy_def
      inc_total_reads_def inc_account_total_reads_def)

lemma blog_id_inc_total_reads [simp]: "blog_id (inc_total_reads n b) = blog_id b"
  by (simp add: inc_total_reads_def)

lemma user_oid_inc_account_total_reads [simp]:
  "user_oid (inc_account_total_reads n u) = user_oid u"
  by (simp add: inc_account_total_reads_def)

lemma get_blog_store:
  assumes b: "findOne (\<lambda>b. blog_id b = get_blog_id r) (blogs s) = Some b"
    and a: "findOne (\<lambda>u. user_oid u = author b) (users s) = Some a"
  shows "snd (get_blog s r) =
     s\<lparr>blogs := update_first (\<lambda>b. blog_id b = get_blog_id r)
                  (inc_total_reads (if get_mode r \<noteq> Some ''edit'' then 1 else 0)) (blogs s),
       users := update_first (\<lambda>u. username u = username a)
                  (inc_account_total_reads (if get_mode r \<noteq> Some ''edit'' then 1 else 0))
                  (users s)\<rparr>"
  using assms
  by (simp add: get_blog_def findOneAndUpdate_def Let_def select_blog_def populate_author_def)

text \<open>
  Claim C3, as stated, fails for a draft: the handler increments before it looks at the
  post, and nothing in it keeps a draft from being counted. The draft of
  \<open>draft_store\<close>, fetched with no mode, has its read counter and its author's read
  counter incremented.
\<close>

theorem get_blog_counts_draft_reads:
  "draft draft_post
   \<and> findOne (\<lambda>b. blog_id b = ''my-draft'') (blogs draft_store) = Some draft_post
   \<and> reads_of draft_store ''my-draft'' = Some 0
   \<and> reads_of (snd (get_blog draft_store (plain_request ''my-draft''))) ''my-draft'' = Some 1
   \<and> account_reads_of draft_store 1 = Some 7
   \<and> account_reads_of (snd (get_blog draft_store (plain_request ''my-draft''))) 1 = Some 8"
  by (simp add: get_blog_def draft_store_def draft_post_def plain_request_def findOneAndUpdate_def
      findOne_def select_blog_def selected_def populate_author_def alice_def bob_def truthy_def
      inc_total_reads_def inc_account_total_reads_def reads_of_def account_reads_of_def)

text \<open>
  Claim C3, amended. For a fetch of a post that is there, whose author is there, in a
  store where no two users share a username: the post's read counter and its author's
  read counter are each incremented by exactly 1 when the mode is not \<^verbatim>\<open>edit\<close>,
  draft or not, and both are unchanged when the mode is \<^verbatim>\<open>edit\<close>.
\<close>

theorem get_blog_read_counters:
  assumes b: "findOne (\<lambda>b. blog_id b = get_blog_id r) (blogs s) = Some b"
    and a: "findOne (\<lambda>u. user_oid u = author b) (users s) = Some a"
    and d: "distinct (map username (users s))"
  shows "reads_of (snd (get_blog s r)) (get_blog_id r)
           = Some (total_reads (activity b) + (if get_mode r \<noteq> Some ''edit'' then 1 else 0))
         \<and> account_reads_of (snd (get_blog s r)) (author b)
           = Some (account_total_reads a + (if get_mode r \<noteq> Some ''edit'' then 1 else 0))"
proof -
  let ?n = "if get_mode r \<noteq> Some ''edit'' then 1 else 0 :: int"
  have "findOne (\<lambda>b. blog_id b = get_blog_id r)
          (update_first (\<lambda>b. blog_id b = get_blog_id r) (inc_total_reads ?n) (blogs s))
        = Some (inc_total_reads ?n b)"
    using b by (simp add: findOne_update_first)
  moreover have "findOne (\<lambda>u. user_oid u = author b)
          (update_first (\<lambda>u. username u = username a) (inc_account_total_reads ?n) (users s))
        = Some (inc_account_total_reads ?n a)"
    using findOne_update_by_key [OF d a, of "inc_account_total_reads ?n"] by simp
  ultimately show ?thesis
    unfolding reads_of_def account_reads_of_def get_blog_store [OF b a]
    by (simp add: inc_total_reads_def inc_account_total_reads_def)
qed

theorem get_blog_read_counters_witness:
  "findOne (\<lambda>b. blog_id b = get_blog_id (plain_request ''read'')) (blogs published_store)
     = Some read_post
   \<and> findOne (\<lambda>u. user_oid u = author read_post) (users published_store) = Some alice
   \<and> distinct (map username (users published_store))
   \<and> reads_of (snd (get_blog published_store (plain_request ''read''))) ''read'' = Some 11
   \<and> account_reads_of (snd (get_blog published_store (plain_request ''read''))) 1 = Some 8
   \<and> reads_of (snd (get_blog published_store (edit_request ''read''))) ''read'' = Some 10
   \<and> account_reads_of (snd (get_blog published_store (edit_request ''read''))) 1 = Some 7"
proof -
  have b: "findOne (\<lambda>b. blog_id b = get_blog_id (plain_request ''read''))
             (blogs published_store) = Some read_post"
    by (simp add: findOne_def published_store_def read_post_def plain_request_def)
  have b': "findOne (\<lambda>b. blog_id b = get_blog_id (edit_request ''read''))
              (blogs published_store) = Some read_post"
    by (simp add: findOne_def published_store_def read_post_def edit_request_def)
  have a: "findOne (\<lambda>u. user_oid u = author read_post) (users published_store) = Some alice"
    by (simp add: findOne_def published_store_def read_post_def alice_def)
  have d: "distinct (map username (users published_store))"
    by (simp add: published_store_def alice_def bob_def)
  have v: "total_reads (activity read_post) = 10" "account_total_reads alice = 7"
    "author read_post = 1"
    by (simp_all add: read_post_def alice_def)
  show ?thesis
    using get_blog_read_counters [OF b a d] get_blog_read_counters [OF b' a d] b a d v
    by (simp add: plain_request_def edit_request_def)
qed

subsection \<open>Likes\<close>

lemma inc_total_likes_inverse [simp]:
  "inc_total_likes (- 1) (inc_total_likes 1 b) = b"
  "inc_total_likes 1 (inc_total_likes (- 1) b) = b"
  by (simp_all add: inc_total_likes_def)

lemma blog_oid_inc_total_likes [simp]: "blog_oid (inc_total_likes n b) = blog_oid b"
  by (simp add: inc_total_likes_def)

lemma liked_iff:
  "(isliked_by_user s u p = OK True) \<longleftrightarrow> filter (is_like_of u p) (notifications s) \<noteq> []"
proof -
  have "(\<lambda>n. nuser n = u \<and> ntype n = Like \<and> nblog n = p) = is_like_of u p"
    by (auto simp: is_like_of_def)
  then show ?thesis by (simp add: isliked_by_user_def exists_doc_filter)
qed

lemma toggle_like_unliked:
  assumes "filter (is_like_of u p) (notifications s) = []"
  shows "blogs (toggle_like s u p)
           = update_first (\<lambda>b. blog_oid b = p) (inc_total_likes 1) (blogs s)"
    and "findOne (\<lambda>b. blog_oid b = p) (blogs s) \<noteq> None \<Longrightarrow>
         filter (is_like_of u p) (notifications (toggle_like s u p)) \<noteq> []"
    and "findOne (\<lambda>b. blog_oid b = p) (blogs s) = None \<Longrightarrow>
         notifications (toggle_like s u p) = notifications s"
  using assms
  by (auto simp: toggle_like_def liked_iff like_blog_def findOneAndUpdate_def is_like_of_def
      Let_def split: option.splits)

lemma toggle_like_liked:
  assumes "filter (is_like_of u p) (notifications s) \<noteq> []"
  shows "blogs (toggle_like s u p)
           = update_first (\<lambda>b. blog_oid b = p) (inc_total_likes (- 1)) (blogs s)"
    and "filter (is_like_of u p) (notifications (toggle_like s u p))
           = tl (filter (is_like_of u p) (notifications s))"
  using assms
  by (auto simp: toggle_like_def liked_iff like_blog_def findOneAndUpdate_def findOneAndDelete_def
      filter_delete_first Let_def split: option.splits)

lemma toggle_twice_blogs:
  assumes "length (filter (is_like_of u p) (notifications s)) \<le> 1"
  shows "blogs (toggle_like (toggle_like s u p) u p) = blogs s"
proof (cases "filter (is_like_of u p) (notifications s) = []")
  case unliked: True
  show ?thesis
  proof (cases "findOne (\<lambda>b. blog_oid b = p) (blogs s)")
    case None
    then have nm: "\<forall>b \<in> set (blogs s). \<not> blog_oid b = p" by (simp add: findOne_None_iff)
    have b1: "blogs (toggle_like s u p) = blogs s"
      using toggle_like_unliked(1) [OF unliked] nm by (simp add: update_first_no_match)
    have "filter (is_like_of u p) (notifications (toggle_like s u p)) = []"
      using toggle_like_unliked(3) [OF unliked None] unliked by simp
    from toggle_like_unliked(1) [OF this] b1 nm show ?thesis
      by (simp add: update_first_no_match)
  next
    case (Some b)
    then have "filter (is_like_of u p) (notifications (toggle_like s u p)) \<noteq> []"
      using toggle_like_unliked(2) [OF unliked] by simp
    from toggle_like_liked(1) [OF this] toggle_like_unliked(1) [OF unliked] show ?thesis
      by (simp add: update_first_twice update_first_same)
  qed
next
  case liked: False
  with assms have "tl (filter (is_like_of u p) (notifications s)) = []"
    by (cases "filter (is_like_of u p) (notifications s)") auto
  then have "filter (is_like_of u p) (notifications (toggle_like s u p)) = []"
    using toggle_like_liked(2) [OF liked] by simp
  from toggle_like_unliked(1) [OF this] toggle_like_liked(1) [OF liked] show ?thesis
    by (simp add: update_first_twice update_first_same)
qed

lemma twice_liked_store:
  "twice_liked =
     \<lparr>users = [alice, bob],
      blogs = [read_post,
               liked_post\<lparr>activity := (activity liked_post)\<lparr>total_likes := 7\<rparr>\<rparr>],
      notifications =
        [\<lparr>ntype = Like, nblog = 12, notification_for = 1, nuser = 2, ncomment = None\<rparr>,
         \<lparr>ntype = Like, nblog = 12, notification_for = 1, nuser = 2, ncomment = None\<rparr>],
      comment_docs = []\<rparr>"
  by (simp add: twice_liked_def like_request_12_def like_blog_def findOneAndUpdate_def
      findOne_def published_store_def read_post_def liked_post_def inc_total_likes_def)

text \<open>
  Claim C2, as stated, fails: \<^verbatim>\<open>/like-blog\<close> takes the liked state from the
  \<^verbatim>\<open>islikedByUser\<close> of the request, not from the notifications, and saves a like
  notification whenever it is false. Two requests that say not liked raise the counter
  of post 12 from 5 to 7 and leave two like notifications of user 2 for it. From there
  the first toggle removes one of them, the post still counts as liked, and the second
  toggle decrements again: 7 becomes 5.
\<close>

theorem like_toggle_twice_counterexample:
  "likes_of published_store 12 = Some 5
   \<and> likes_of twice_liked 12 = Some 7
   \<and> length (filter (is_like_of 2 12) (notifications twice_liked)) = 2
   \<and> likes_of (toggle_like (toggle_like twice_liked 2 12) 2 12) 12 = Some 5"
  unfolding twice_liked_store
  by (simp add: likes_of_def toggle_like_def like_blog_def isliked_by_user_def exists_doc_def
      findOne_def findOneAndUpdate_def findOneAndDelete_def published_store_def
      read_post_def liked_post_def is_like_of_def inc_total_likes_def)

text \<open>
  Claim C2, amended. When the store holds at most one like notification of the user for
  the post, two toggles in succession leave the post's like counter as it was.
\<close>

theorem like_toggle_round_trip:
  "length (filter (is_like_of u p) (notifications s)) \<le> 1 \<Longrightarrow>
   likes_of (toggle_like (toggle_like s u p) u p) p = likes_of s p"
  by (simp add: likes_of_def toggle_twice_blogs)

theorem like_toggle_round_trip_witness:
  "length (filter (is_like_of 2 12) (notifications published_store)) \<le> 1
   \<and> likes_of (toggle_like (toggle_like published_store 2 12) 2 12) 12 = Some 5"
proof -
  have h: "length (filter (is_like_of 2 12) (notifications published_store)) \<le> 1"
    by (simp add: published_store_def)
  have "likes_of published_store 12 = Some 5"
    by (simp add: likes_of_def published_store_def read_post_def liked_post_def findOne_def)
  with like_toggle_round_trip [OF h] h show ?thesis by simp
qed

subsection \<open>Listings\<close>

text \<open>The first sort key of the trending listing names no field of a post.\<close>

lemma sort_field_total_read: "sort_field ''activity.total_read'' b = None"
  by (simp add: sort_field_def)

text \<open>
  Claim C8 says that the trending listing is ordered by read count first. The handler
  sorts by \<^verbatim>\<open>activity.total_read\<close>, while the counter that \<^verbatim>\<open>/get-blog\<close> increments
  is \<^verbatim>\<open>activity.total_reads\<close>: the first sort key reads as null on every post, and
  the order is by likes, then by publish time. Of two published posts, the one with 10
  reads and no like comes after the one with no read and 5 likes; sorted by the
  name that the counter has, it comes first.
\<close>

theorem trending_ignores_reads:
  "map draft (blogs published_store) = [False, False]
   \<and> map (\<lambda>b. total_reads (activity b)) (blogs published_store) = [10, 0]
   \<and> map blog_id (blogs published_store) = [''read'', ''liked'']
   \<and> (\<exists>ds. trending_blogs published_store = OK ds
          \<and> map doc_blog_id ds = [Some ''liked'', Some ''read''])
   \<and> map blog_id
        (sort_docs [(''activity.total_reads'', - 1), (''activity.total_likes'', - 1),
                    (''publishedAt'', - 1)] (blogs published_store)) = [''read'', ''liked'']"
  by (simp add: trending_blogs_def published_store_def read_post_def liked_post_def sort_docs_def
      sort_field_def select_blog_def selected_def)

lemma set_insert_doc: "set (insert_doc keys x ys) = insert x (set ys)"
  by (induction ys) auto

lemma set_sort_docs: "set (sort_docs keys xs) = set xs"
  by (induction xs) (simp_all add: sort_docs_def set_insert_doc)

lemma length_insert_doc: "length (insert_doc keys x ys) = Suc (length ys)"
  by (induction ys) auto

lemma length_sort_docs: "length (sort_docs keys xs) = length xs"
  by (induction xs) (simp_all add: sort_docs_def length_insert_doc)

text \<open>A document at index \<open>i\<close> of a listing is on the page \<open>i div n\<close> of it.\<close>

lemma page_contains:
  assumes "i < length xs" and "0 < n"
  shows "xs ! i \<in> set (take n (drop ((i div n) * n) xs))"
proof -
  let ?k = "(i div n) * n"
  have k: "?k + i mod n = i" by simp
  have j: "i mod n < n" using assms(2) by simp
  have "i mod n < length xs - ?k" using assms(1) k by linarith
  with j have l: "i mod n < length (take n (drop ?k xs))" by simp
  have "?k \<le> length xs" using assms(1) k by linarith
  then have "take n (drop ?k xs) ! (i mod n) = xs ! i"
    using j by (simp add: nth_drop)
  with l show ?thesis by (metis nth_mem)
qed

text \<open>
  Claim C9. For every search request that names no tag, no query and no author (absent or
  empty), the filter is left undefined, and the answer is the requested page of the
  listing of all posts of the store, newest first, with no restriction to posts that are
  no drafts: every post of the store, draft or not, is on some page of that search. A
  request that names a tag, a query or an author builds a filter, and a post that passes
  a filter is no draft.
\<close>

theorem search_blogs_without_filter:
  assumes "search_tag r \<in> {None, Some []}" and "search_query r \<in> {None, Some []}"
    and "search_author r = None"
  shows "findQuery matches r = None
       \<and> find_docs (findQuery matches r) (blogs s) = blogs s
       \<and> search_blogs matches s r =
           (if (search_page r - 1) * int (if search_limit r \<noteq> 0 then search_limit r else 2) < 0
            then Err 500 ''skip value must be non-negative''
            else OK (map (\<lambda>b. select_blog
                            [''blog_id'', ''title'', ''des'', ''banner'', ''activity'', ''tags'',
                             ''publishedAt'', ''-_id'']
                            (populate_author author_fields s (author b)) b)
                      (take (if search_limit r \<noteq> 0 then search_limit r else 2)
                         (drop (nat ((search_page r - 1)
                                  * int (if search_limit r \<noteq> 0 then search_limit r else 2)))
                            (sort_docs [(''publishedAt'', - 1)] (blogs s))))))
       \<and> (\<forall>b \<in> set (blogs s). \<exists>page ds.
             search_blogs matches s (r\<lparr>search_page := page\<rparr>) = OK ds
             \<and> Some (blog_id b) \<in> set (map doc_blog_id ds))
       \<and> (search_page r = 1
            \<and> length (blogs s) \<le> (if search_limit r \<noteq> 0 then search_limit r else 2)
           \<longrightarrow> (\<exists>ds. search_blogs matches s r = OK ds
                  \<and> (\<forall>b \<in> set (blogs s). Some (blog_id b) \<in> set (map doc_blog_id ds))))
       \<and> (\<forall>r' p b. findQuery matches r' = Some p \<and> p b \<longrightarrow> \<not> draft b)
       \<and> (\<forall>r'. \<not> (search_tag r' \<in> {None, Some []} \<and> search_query r' \<in> {None, Some []}
                    \<and> search_author r' = None)
             \<longrightarrow> findQuery matches r' \<noteq> None)"
proof -
  let ?lim = "if search_limit r \<noteq> 0 then search_limit r else 2"
  let ?sorted = "sort_docs [(''publishedAt'', - 1)] (blogs s)"
  have q: "findQuery matches (r\<lparr>search_page := page\<rparr>) = None" for page
    using assms by (auto simp: findQuery_def)
  from q [of "search_page r"] have q0: "findQuery matches r = None" by simp
  then have f: "find_docs (findQuery matches r) (blogs s) = blogs s"
    by (simp add: find_docs_def)
  have e: "search_blogs matches s r =
           (if (search_page r - 1) * int ?lim < 0
            then Err 500 ''skip value must be non-negative''
            else OK (map (\<lambda>b. select_blog
                            [''blog_id'', ''title'', ''des'', ''banner'', ''activity'', ''tags'',
                             ''publishedAt'', ''-_id'']
                            (populate_author author_fields s (author b)) b)
                      (take ?lim (drop (nat ((search_page r - 1) * int ?lim)) ?sorted))))"
    unfolding search_blogs_def Let_def f by (rule refl)
  define lim where "lim = (if search_limit r \<noteq> 0 then search_limit r else 2)"
  have lim: "0 < lim" by (simp add: lim_def)
  have sb: "search_blogs matches s (r\<lparr>search_page := page\<rparr>) =
        (if (page - 1) * int lim < 0 then Err 500 ''skip value must be non-negative''
         else OK (map (\<lambda>b. select_blog
                 [''blog_id'', ''title'', ''des'', ''banner'', ''activity'', ''tags'',
                  ''publishedAt'', ''-_id'']
                 (populate_author author_fields s (author b)) b)
           (take lim (drop (nat ((page - 1) * int lim)) ?sorted))))" for page
    unfolding search_blogs_def Let_def lim_def using q [of page]
    by (simp add: find_docs_def)
  have pages: "\<exists>page ds. search_blogs matches s (r\<lparr>search_page := page\<rparr>) = OK ds
             \<and> Some (blog_id b) \<in> set (map doc_blog_id ds)" if b: "b \<in> set (blogs s)" for b
  proof -
    from b have "b \<in> set ?sorted" by (simp add: set_sort_docs)
    then obtain i where i: "i < length ?sorted" "?sorted ! i = b"
      by (auto simp: in_set_conv_nth)
    define page where "page = int (i div lim) + 1"
    have sk: "nat ((page - 1) * int lim) = (i div lim) * lim"
      by (simp add: page_def nat_mult_distrib)
    have nn: "\<not> (page - 1) * int lim < 0"
      by (simp add: page_def not_less zero_le_mult_iff)
    have "b \<in> set (take lim (drop ((i div lim) * lim) ?sorted))"
      using page_contains [OF i(1) lim] i(2) by simp
    then have "Some (blog_id b) \<in> set (map doc_blog_id
        (map (\<lambda>b. select_blog
                 [''blog_id'', ''title'', ''des'', ''banner'', ''activity'', ''tags'',
                  ''publishedAt'', ''-_id'']
                 (populate_author author_fields s (author b)) b)
           (take lim (drop ((i div lim) * lim) ?sorted))))"
      by (force simp: select_blog_def selected_def)
    moreover have "search_blogs matches s (r\<lparr>search_page := page\<rparr>) =
        OK (map (\<lambda>b. select_blog
                 [''blog_id'', ''title'', ''des'', ''banner'', ''activity'', ''tags'',
                  ''publishedAt'', ''-_id'']
                 (populate_author author_fields s (author b)) b)
           (take lim (drop ((i div lim) * lim) ?sorted)))"
      using nn by (simp only: sb sk if_False)
    ultimately show ?thesis by blast
  qed
  have first: "\<exists>ds. search_blogs matches s r = OK ds
          \<and> (\<forall>b \<in> set (blogs s). Some (blog_id b) \<in> set (map doc_blog_id ds))"
    if p: "search_page r = 1" and l: "length (blogs s) \<le> ?lim"
  proof -
    have "take ?lim ?sorted = ?sorted"
      using l by (simp add: length_sort_docs)
    then show ?thesis
      using p f by (auto simp: search_blogs_def Let_def set_sort_docs select_blog_def selected_def
          image_iff)
  qed
  have nodraft: "\<forall>r' p b. findQuery matches r' = Some p \<and> p b \<longrightarrow> \<not> draft b"
    by (auto simp: findQuery_def Let_def split: option.splits if_splits)
  have named: "\<forall>r'. \<not> (search_tag r' \<in> {None, Some []} \<and> search_query r' \<in> {None, Some []}
                    \<and> search_author r' = None)
             \<longrightarrow> findQuery matches r' \<noteq> None"
    by (auto simp: findQuery_def Let_def split: option.splits if_splits)
  from q0 f e pages first nodraft named show ?thesis by blast
qed

theorem search_blogs_without_filter_witness:
  "search_tag empty_search \<in> {None, Some []} \<and> search_query empty_search \<in> {None, Some []}
   \<and> search_author empty_search = None
   \<and> map draft (blogs mixed_store) = [False, False, True]
   \<and> (\<exists>ds. search_blogs starts_with mixed_store empty_search = OK ds
          \<and> map doc_blog_id ds = [Some ''my-draft'', Some ''liked''])
   \<and> (\<exists>ds. search_blogs starts_with draft_store empty_search = OK ds
          \<and> Some ''my-draft'' \<in> set (map doc_blog_id ds))"
proof -
  have a: "search_tag empty_search \<in> {None, Some []}"
    "search_query empty_search \<in> {None, Some []}"
    "search_author empty_search = None"
    by (simp_all add: empty_search_def)
  have b: "search_page empty_search = 1
     \<and> length (blogs draft_store)
         \<le> (if search_limit empty_search \<noteq> 0 then search_limit empty_search else 2)"
    by (simp add: empty_search_def draft_store_def)
  have c: "draft draft_post" "blogs draft_store = [draft_post]"
    "blog_id draft_post = ''my-draft''"
    by (simp_all add: draft_post_def draft_store_def)
  have d: "map draft (blogs mixed_store) = [False, False, True]"
    by (simp add: mixed_store_def read_post_def liked_post_def draft_post_def)
  have m: "map doc_blog_id
      (map (\<lambda>b. select_blog
                 [''blog_id'', ''title'', ''des'', ''banner'', ''activity'', ''tags'',
                  ''publishedAt'', ''-_id'']
                 (populate_author author_fields mixed_store (author b)) b)
         (take 2 (sort_docs [(''publishedAt'', - 1)] (blogs mixed_store))))
      = [Some ''my-draft'', Some ''liked'']"
    by (simp add: mixed_store_def read_post_def liked_post_def draft_post_def sort_docs_def
        sort_field_def select_blog_def selected_def)
  have p: "search_page empty_search = 1" "search_limit empty_search = 0"
    by (simp_all add: empty_search_def)
  have "search_blogs starts_with mixed_store empty_search =
      OK (map (\<lambda>b. select_blog
                 [''blog_id'', ''title'', ''des'', ''banner'', ''activity'', ''tags'',
                  ''publishedAt'', ''-_id'']
                 (populate_author author_fields mixed_store (author b)) b)
         (take 2 (sort_docs [(''publishedAt'', - 1)] (blogs mixed_store))))"
    using search_blogs_without_filter [OF a, of starts_with mixed_store] p by simp
  with m have x: "\<exists>ds. search_blogs starts_with mixed_store empty_search = OK ds
          \<and> map doc_blog_id ds = [Some ''my-draft'', Some ''liked'']"
    by simp
  have y: "\<exists>ds. search_blogs starts_with draft_store empty_search = OK ds
          \<and> Some ''my-draft'' \<in> set (map doc_blog_id ds)"
    using search_blogs_without_filter [OF a, of starts_with draft_store] b c by auto
  from a d x y show ?thesis by blast
qed

subsection \<open>Creating and updating a post\<close>

lemma create_blog_validate_draft:
  "req_draft r \<Longrightarrow>
   create_blog_validate r = (if req_title r = [] then Some ''You must provide a title'' else None)"
  by (simp add: create_blog_validate_def)

text \<open>
  Claim C4. A request that is no draft is rejected with status 403, and the store is left
  as it was, when its description is empty or longer than 200 characters, its banner is
  empty, its content has no block, or it has no tag or more than 10 tags. A request
  that is a draft passes every check when its title is not empty, whatever its
  description, banner, content and tags are, and is answered with the identifier of the
  post; with an empty title it is rejected.
\<close>

theorem create_blog_validation:
  "(\<not> req_draft r \<and> (req_des r = [] \<or> length (req_des r) > 200 \<or> req_banner r = []
       \<or> req_content_blocks r = [] \<or> req_tags r = [] \<or> length (req_tags r) > 10)
     \<longrightarrow> (\<exists>m. create_blog nanoid new_oid now s authorId r = (Err 403 m, s)))
   \<and> (req_draft r \<and> req_title r \<noteq> []
     \<longrightarrow> create_blog_validate r = None
         \<and> (\<exists>i. fst (create_blog nanoid new_oid now s authorId r) = OK i))
   \<and> (req_draft r \<and> req_title r = []
     \<longrightarrow> create_blog nanoid new_oid now s authorId r
           = (Err 403 ''You must provide a title'', s))"
proof (intro conjI impI)
  assume "\<not> req_draft r \<and> (req_des r = [] \<or> length (req_des r) > 200 \<or> req_banner r = []
       \<or> req_content_blocks r = [] \<or> req_tags r = [] \<or> length (req_tags r) > 10)"
  then have "create_blog_validate r \<noteq> None"
    by (auto simp: create_blog_validate_def)
  then show "\<exists>m. create_blog nanoid new_oid now s authorId r = (Err 403 m, s)"
    by (auto simp: create_blog_def)
next
  assume h: "req_draft r \<and> req_title r \<noteq> []"
  then show v: "create_blog_validate r = None"
    by (simp add: create_blog_validate_draft)
  show "\<exists>i. fst (create_blog nanoid new_oid now s authorId r) = OK i"
    by (simp add: create_blog_def v Let_def)
next
  assume "req_draft r \<and> req_title r = []"
  then show "create_blog nanoid new_oid now s authorId r
               = (Err 403 ''You must provide a title'', s)"
    by (simp add: create_blog_def create_blog_validate_draft)
qed

theorem create_blog_validation_witness:
  "(\<exists>m. create_blog ''N4n0'' 20 300 two_users 1 publish_request = (Err 403 m, two_users))
   \<and> fst (create_blog ''N4n0'' 20 300 two_users 1 draft_request) = OK ''Hello-World-N4n0''
   \<and> create_blog ''N4n0'' 20 300 two_users 1 (draft_request\<lparr>req_title := []\<rparr>)
       = (Err 403 ''You must provide a title'', two_users)"
proof -
  have p: "\<not> req_draft publish_request \<and> length (req_tags publish_request) > 10"
    by (simp add: publish_request_def)
  have d: "req_draft draft_request \<and> req_title draft_request \<noteq> []"
    by (simp add: draft_request_def)
  have e: "req_draft (draft_request\<lparr>req_title := []\<rparr>)
             \<and> req_title (draft_request\<lparr>req_title := []\<rparr>) = []"
    by (simp add: draft_request_def)
  have v: "fst (create_blog ''N4n0'' 20 300 two_users 1 draft_request) = OK ''Hello-World-N4n0''"
    by (simp add: create_blog_def create_blog_validate_def draft_request_def title_slug_def
        trim_def is_alnum_def Let_def)
  show ?thesis
    using create_blog_validation [where r = publish_request and nanoid = "''N4n0''"
        and new_oid = 20 and now = 300 and s = two_users and authorId = 1] p
      create_blog_validation [where r = draft_request and nanoid = "''N4n0''" and new_oid = 20
        and now = 300 and s = two_users and authorId = 1] d v
      create_blog_validation [where r = "draft_request\<lparr>req_title := []\<rparr>"
        and nanoid = "''N4n0''" and new_oid = 20 and now = 300 and s = two_users
        and authorId = 1] e
    by simp
qed

subsection \<open>Comments\<close>

lemma blog_oid_comment_update [simp]: "blog_oid (comment_update c b) = blog_oid b"
  by (simp add: comment_update_def)

text \<open>
  Claim C7, as stated, fails in two places. The notification goes to the user that the
  request names as \<^verbatim>\<open>blog_author\<close>, who need not be the author of the post; and the
  update sets \<^verbatim>\<open>activity.total_parent_comments\<close> to 1, so a post that had 3 parent
  comments has 1 after the comment, not 4.
\<close>

theorem add_comment_counterexample:
  "findOne (\<lambda>b. blog_oid b = com_oid bob_comment) (blogs published_store) = Some read_post
   \<and> author read_post = 1
   \<and> parent_comments_of published_store 11 = Some 3
   \<and> parent_comments_of (snd (add_comment 30 400 published_store 2 bob_comment)) 11 = Some 1
   \<and> map notification_for (notifications (snd (add_comment 30 400 published_store 2 bob_comment)))
       = [2]"
  by (simp add: add_comment_def bob_comment_def published_store_def read_post_def liked_post_def
      findOne_def findOneAndUpdate_def comment_update_def parent_comments_of_def Let_def)

text \<open>
  Claim C7, amended. An add-comment request with a comment text that is not empty
  appends one new comment document, increments the \<^verbatim>\<open>total_comments\<close> counter of the
  post by 1, and appends one comment notification addressed to the user whom the request
  names as \<^verbatim>\<open>blog_author\<close>.
\<close>

theorem add_comment_effects:
  assumes "com_comment r \<noteq> []"
  shows "(\<exists>c. fst (add_comment new_oid now s user_id r) = OK c
            \<and> comment_docs (snd (add_comment new_oid now s user_id r)) = comment_docs s @ [c]
            \<and> comment_oid c = new_oid \<and> cblog_id c = com_oid r \<and> ccomment c = com_comment r
            \<and> commented_by c = user_id)
       \<and> comments_of (snd (add_comment new_oid now s user_id r)) (com_oid r)
           = map_option (\<lambda>n. n + 1) (comments_of s (com_oid r))
       \<and> notifications (snd (add_comment new_oid now s user_id r))
           = notifications s @
             [\<lparr>ntype = Comment, nblog = com_oid r, notification_for = com_blog_author r,
               nuser = user_id, ncomment = Some new_oid\<rparr>]"
  using assms
  by (simp add: add_comment_def Let_def findOneAndUpdate_def comments_of_def findOne_update_first
      option.map_comp comp_def comment_update_def)

theorem add_comment_effects_witness:
  "com_comment bob_comment \<noteq> []
   \<and> length (comment_docs (snd (add_comment 30 400 published_store 2 bob_comment))) = 1
   \<and> comments_of published_store 11 = Some 3
   \<and> comments_of (snd (add_comment 30 400 published_store 2 bob_comment)) 11 = Some 4
   \<and> map ntype (notifications (snd (add_comment 30 400 published_store 2 bob_comment)))
       = [Comment]"
proof -
  have h: "com_comment bob_comment \<noteq> []" by (simp add: bob_comment_def)
  have c: "comments_of published_store 11 = Some 3"
    by (simp add: comments_of_def published_store_def read_post_def findOne_def)
  have e: "comment_docs published_store = []" "notifications published_store = []"
    "com_oid bob_comment = 11"
    by (simp_all add: published_store_def bob_comment_def)
  show ?thesis
    using add_comment_effects [OF h, of 30 400 published_store 2] h c e
    by auto
qed

text \<open>
  Claim C10. The comment notification that an add-comment request emits is addressed to
  the \<^verbatim>\<open>blog_author\<close> of the request body; and there is a request on a stored post
  whose notification goes to a user who is not the author of that post.
\<close>

theorem add_comment_recipient:
  "(com_comment r \<noteq> [] \<longrightarrow>
      (\<exists>n. notifications (snd (add_comment new_oid now s user_id r)) = notifications s @ [n]
          \<and> ntype n = Comment \<and> notification_for n = com_blog_author r))
   \<and> (\<exists>s' r' b n. com_comment r' \<noteq> []
        \<and> findOne (\<lambda>b. blog_oid b = com_oid r') (blogs s') = Some b
        \<and> notifications (snd (add_comment new_oid now s' user_id r')) = notifications s' @ [n]
        \<and> notification_for n \<noteq> author b)"
proof (intro conjI impI)
  assume "com_comment r \<noteq> []"
  then show "\<exists>n. notifications (snd (add_comment new_oid now s user_id r)) = notifications s @ [n]
          \<and> ntype n = Comment \<and> notification_for n = com_blog_author r"
    by (simp add: add_comment_def Let_def)
next
  have "com_comment bob_comment \<noteq> []" by (simp add: bob_comment_def)
  moreover have "findOne (\<lambda>b. blog_oid b = com_oid bob_comment) (blogs published_store)
                   = Some read_post"
    by (simp add: findOne_def published_store_def read_post_def bob_comment_def)
  moreover have "notifications (snd (add_comment new_oid now published_store user_id bob_comment))
      = notifications published_store @
          [\<lparr>ntype = Comment, nblog = 11, notification_for = 2, nuser = user_id,
            ncomment = Some new_oid\<rparr>]"
    by (simp add: add_comment_def Let_def bob_comment_def)
  moreover have "notification_for \<lparr>ntype = Comment, nblog = 11, notification_for = 2,
            nuser = user_id, ncomment = Some new_oid\<rparr> \<noteq> author read_post"
    by (simp add: read_post_def)
  ultimately show "\<exists>s' r' b n. com_comment r' \<noteq> []
        \<and> findOne (\<lambda>b. blog_oid b = com_oid r') (blogs s') = Some b
        \<and> notifications (snd (add_comment new_oid now s' user_id r')) = notifications s' @ [n]
        \<and> notification_for n \<noteq> author b"
    by blast
qed

theorem add_comment_recipient_witness:
  "com_comment bob_comment \<noteq> []
   \<and> map notification_for
        (notifications (snd (add_comment 30 400 published_store 2 bob_comment)))
       = [com_blog_author bob_comment]
   \<and> com_blog_author bob_comment = 2
   \<and> map author (filter (\<lambda>b. blog_oid b = com_oid bob_comment) (blogs published_store)) = [1]"
proof -
  have h: "com_comment bob_comment \<noteq> []" by (simp add: bob_comment_def)
  have e: "notifications published_store = []" by (simp add: published_store_def)
  have f: "map author (filter (\<lambda>b. blog_oid b = com_oid bob_comment) (blogs published_store))
             = [1]"
    "com_blog_author bob_comment = 2"
    by (simp_all add: published_store_def bob_comment_def read_post_def liked_post_def)
  show ?thesis
    using add_comment_recipient [of bob_comment 30 400 published_store 2] h e f
    by auto
qed

end
